theory Spec2Isabelle
  imports Complex_Main "HOL-Library.Sublist"
begin

section \<open>Python values, dictionaries and errors\<close>

text \<open>
  The boundary-condition code of FESTIM works on duck-typed dictionaries (one per declared
  condition, one per material) whose values are numbers, strings, lists, tuples, sets of
  integers and sympy expressions. Floating-point numbers are idealised as reals. A sympy expression in the
  time \<open>t\<close> and the coordinates \<open>x\<close> is represented by the function it denotes; the
  symbolic-to-C++ compilation (\<open>sp.printing.ccode\<close> followed by \<open>fenics.Expression\<close>) is an
  external collaborator and is taken to preserve that denotation.
\<close>

type_synonym point = "real list"

datatype pyval =
    PNone
  | PInt int
  | PFloat real
  | PStr string
  | PList "pyval list"
  | PTuple "pyval list"
  | PSet "int set"
  | PSym "real \<Rightarrow> point \<Rightarrow> real"

type_synonym pydict = "string \<rightharpoonup> pyval"

datatype error =
    KeyError string
  | NameError string
  | ValueError string
  | UnboundLocalError string
  | MaterialNotFound int
  | TypeError
  | ZeroDivisionError

definition err_bind :: "error + 'a \<Rightarrow> ('a \<Rightarrow> error + 'b) \<Rightarrow> error + 'b" where
  "err_bind m f = (case m of Inl e \<Rightarrow> Inl e | Inr v \<Rightarrow> f v)"

text \<open>\<open>d[k]\<close>: a missing key raises \<open>KeyError\<close>.\<close>

definition getitem :: "pydict \<Rightarrow> string \<Rightarrow> error + pyval" where
  "getitem d k = (case d k of None \<Rightarrow> Inl (KeyError k) | Some v \<Rightarrow> Inr v)"

text \<open>A value used as an operand of float arithmetic: anything but a number is a \<open>TypeError\<close>.\<close>

fun as_float :: "pyval \<Rightarrow> error + real" where
  "as_float (PInt i) = Inr (real_of_int i)"
| "as_float (PFloat r) = Inr r"
| "as_float v = Inl TypeError"

text \<open>\<open>a / b\<close>: there is no real quotient by zero; Python raises \<open>ZeroDivisionError\<close>.\<close>

definition py_div :: "real \<Rightarrow> real \<Rightarrow> error + real" where
  "py_div a b = (if b = 0 then Inl ZeroDivisionError else Inr (a / b))"

text \<open>
  \<open>a ** 0.5\<close>: the square root for \<open>a \<ge> 0\<close>. For a negative float Python 3 returns a
  complex number, which cannot be stored in the real-valued output slot \<open>value[0]\<close>.
\<close>

definition py_pow_half :: "real \<Rightarrow> error + real" where
  "py_pow_half a = (if a < 0 then Inl TypeError else Inr (sqrt a))"

text \<open>\<open>v == 0\<close> on a Python value.\<close>

fun py_eq_zero :: "pyval \<Rightarrow> bool" where
  "py_eq_zero (PInt i) = (i = 0)"
| "py_eq_zero (PFloat r) = (r = 0)"
| "py_eq_zero v = False"

text \<open>\<open>v in l\<close> for a list \<open>l\<close> of strings.\<close>

fun py_in :: "pyval \<Rightarrow> string list \<Rightarrow> bool" where
  "py_in (PStr s) l = (s \<in> set l)"
| "py_in v l = False"

text \<open>
  The value at time \<open>t\<close> and point \<open>x\<close> of \<open>Expression(sp.printing.ccode(v), t=..)\<close>.
\<close>

fun sym_eval :: "pyval \<Rightarrow> real \<Rightarrow> point \<Rightarrow> error + real" where
  "sym_eval (PSym f) t x = Inr (f t x)"
| "sym_eval (PInt i) t x = Inr (real_of_int i)"
| "sym_eval (PFloat r) t x = Inr r"
| "sym_eval v t x = Inl TypeError"

section \<open>Boundary expressions (FESTIM/boundary\_conditions.py)\<close>

text \<open>
  The expression objects the assembler creates. Each constructor keeps the arguments the
  Python constructor stores: \<open>Expression v d\<close> is
  \<open>Expression(sp.printing.ccode(v), t=0, degree=d)\<close>; the temperature \<open>T\<close> is a
  pointwise-evaluable field; the mesh is an opaque handle; the volume markers map a cell
  index to a subdomain id.
\<close>

datatype expr =
    Expression pyval nat
  | BoundaryConditionSolubility pyval pyval expr "point \<Rightarrow> real"
  | BoundaryConditionRecomb expr expr pyval pyval pyval pyval "point \<Rightarrow> real"
  | BoundaryConditionTheta expr nat "pydict list" "nat \<Rightarrow> int" "point \<Rightarrow> real"

text \<open>
  The Arrhenius law \<open>P_0*exp(-E/k_B/T)\<close> as the three classes write it inline, in Python's
  evaluation order: negate \<open>E\<close>, divide by \<open>k_B\<close>, divide by \<open>T(x)\<close>, exponentiate,
  multiply by \<open>P_0\<close>. The constant \<open>FESTIM.k_B\<close> is declared outside the files at hand and
  is a parameter here.
\<close>

definition arrhenius :: "real \<Rightarrow> pyval \<Rightarrow> pyval \<Rightarrow> real \<Rightarrow> error + real" where
  "arrhenius k_B P_0 E T =
     err_bind (as_float E) (\<lambda>e.
     err_bind (py_div (- e) k_B) (\<lambda>a.
     err_bind (py_div a T) (\<lambda>b.
     err_bind (as_float P_0) (\<lambda>p.
     Inr (p * exp b)))))"

text \<open>
  Modelled from the spec: \<open>FESTIM.helpers.find_material_from_id\<close>, the Material Resolver
  (``\<open>resolve(materials, subdomain_id) -> Material\<close>; fails with \<open>MaterialNotFound\<close> if no
  material in the list matches \<open>subdomain_id\<close>'').
\<close>

fun find_material_from_id :: "pydict list \<Rightarrow> int \<Rightarrow> error + pydict" where
  "find_material_from_id [] i = Inl (MaterialNotFound i)"
| "find_material_from_id (m # ms) i =
     (if m ''id'' = Some (PInt i) then Inr m else find_material_from_id ms i)"

text \<open>\<open>BoundaryConditionTheta.eval_cell\<close>; \<open>bci\<close> is the wrapped expression's evaluation.\<close>

definition BoundaryConditionTheta_eval_cell ::
  "real \<Rightarrow> (point \<Rightarrow> error + real) \<Rightarrow> pydict list \<Rightarrow> (nat \<Rightarrow> int) \<Rightarrow> (point \<Rightarrow> real)
     \<Rightarrow> nat \<Rightarrow> point \<Rightarrow> error + real" where
  "BoundaryConditionTheta_eval_cell k_B bci materials vm T cell x =
     (let subdomain_id = vm cell in
      err_bind (find_material_from_id materials subdomain_id) (\<lambda>material.
      err_bind (getitem material ''S_0'') (\<lambda>S_0.
      err_bind (getitem material ''E_S'') (\<lambda>E_S.
      err_bind (bci x) (\<lambda>c.
      err_bind (arrhenius k_B S_0 E_S (T x)) (\<lambda>S.
      py_div c S))))))"

text \<open>\<open>BoundaryConditionRecomb.eval\<close>.\<close>

definition BoundaryConditionRecomb_eval ::
  "real \<Rightarrow> (point \<Rightarrow> error + real) \<Rightarrow> (point \<Rightarrow> error + real) \<Rightarrow> pyval \<Rightarrow> pyval \<Rightarrow> pyval
     \<Rightarrow> pyval \<Rightarrow> (point \<Rightarrow> real) \<Rightarrow> point \<Rightarrow> error + real" where
  "BoundaryConditionRecomb_eval k_B phi R_p K_0 E_K D_0 E_D T x =
     err_bind (arrhenius k_B D_0 E_D (T x)) (\<lambda>D.
     err_bind (phi x) (\<lambda>p.
     err_bind (R_p x) (\<lambda>r.
     err_bind (py_div (p * r) D) (\<lambda>val.
     if K_0 \<noteq> PNone then
       err_bind (arrhenius k_B K_0 E_K (T x)) (\<lambda>K.
       err_bind (phi x) (\<lambda>p'.
       err_bind (py_div p' K) (\<lambda>q.
       err_bind (py_pow_half q) (\<lambda>s.
       Inr (val + s)))))
     else Inr val))))"

text \<open>\<open>BoundaryConditionSolubility.eval\<close>.\<close>

definition BoundaryConditionSolubility_eval ::
  "real \<Rightarrow> pyval \<Rightarrow> pyval \<Rightarrow> (point \<Rightarrow> error + real) \<Rightarrow> (point \<Rightarrow> real) \<Rightarrow> point
     \<Rightarrow> error + real" where
  "BoundaryConditionSolubility_eval k_B S_0 E_S pressure T x =
     err_bind (arrhenius k_B S_0 E_S (T x)) (\<lambda>S.
     err_bind (pressure x) (\<lambda>p.
     err_bind (py_pow_half p) (\<lambda>r.
     Inr (S * r))))"

text \<open>
  Pointwise evaluation of an expression object at time \<open>t\<close>, in the cell \<open>cell\<close>, at the
  point \<open>x\<close>: the dispatch fenics performs on \<open>eval\<close> / \<open>eval_cell\<close>.
\<close>

fun eval_expr :: "real \<Rightarrow> real \<Rightarrow> nat \<Rightarrow> expr \<Rightarrow> point \<Rightarrow> error + real" where
  "eval_expr k_B t cell (Expression v d) x = sym_eval v t x"
| "eval_expr k_B t cell (BoundaryConditionSolubility S_0 E_S pressure T) x =
     BoundaryConditionSolubility_eval k_B S_0 E_S (\<lambda>y. eval_expr k_B t cell pressure y) T x"
| "eval_expr k_B t cell (BoundaryConditionRecomb phi R_p K_0 E_K D_0 E_D T) x =
     BoundaryConditionRecomb_eval k_B (\<lambda>y. eval_expr k_B t cell phi y)
       (\<lambda>y. eval_expr k_B t cell R_p y) K_0 E_K D_0 E_D T x"
| "eval_expr k_B t cell (BoundaryConditionTheta bci mesh materials vm T) x =
     BoundaryConditionTheta_eval_cell k_B (\<lambda>y. eval_expr k_B t cell bci y) materials vm T cell x"

section \<open>The assemblers (FESTIM/boundary\_conditions.py)\<close>

text \<open>
  What the assemblers read of the simulation object: the three declaration lists of
  \<open>simulation.parameters\<close>, the number of sub-spaces of \<open>V\<close>, the marker fields (the surface
  markers and the mesh as opaque handles), the temperature and the solubility field \<open>S\<close>
  (\<open>None\<close> when the problem has none).
\<close>

record simulation =
  sim_boundary_conditions :: "pydict list"
  sim_materials :: "pydict list"
  sim_temperature_boundary_conditions :: "pydict list"
  sim_num_sub_spaces :: nat
  sim_mesh :: nat
  sim_volume_markers :: "nat \<Rightarrow> int"
  sim_surface_markers :: nat
  sim_T :: "point \<Rightarrow> real"
  sim_S :: "(point \<Rightarrow> real) option"

text \<open>
  The table \<open>FESTIM.helpers.bc_types\<close> (keys \<open>"dc"\<close>, \<open>"neumann"\<close>, \<open>"robin"\<close>) is declared
  outside the files at hand; the assembler takes it as a parameter.
\<close>

record bc_types =
  bt_dc :: "string list"
  bt_neumann :: "string list"
  bt_robin :: "string list"

text \<open>
  Modelled from the spec: the contents of \<open>FESTIM.helpers.bc_types\<close> (essential kinds:
  fixed-value, solubility, implantation-recombination; natural kinds: flux and
  recombination), under the kind strings the source compares with.
\<close>

definition festim_bc_types :: bc_types where
  "festim_bc_types =
     \<lparr>bt_dc = [''dc'', ''solubility'', ''dc_imp''], bt_neumann = [''flux''],
      bt_robin = [''recomb'']\<rparr>"

text \<open>
  The function space a constraint is imposed on: \<open>V\<close>, \<open>V.sub(component)\<close> or \<open>V_CG1\<close>.
  \<open>DirichletBC(funspace, value, markers, surface)\<close> is an essential constraint.
\<close>

datatype funspace = Space_V | Space_V_sub pyval | Space_V_CG1

datatype dirichlet_bc = DirichletBC funspace expr nat pyval

text \<open>\<open>surfaces if type(surfaces) is list else [surfaces]\<close>.\<close>

fun as_surface_list :: "pyval \<Rightarrow> pyval list" where
  "as_surface_list (PList l) = l"
| "as_surface_list v = [v]"

text \<open>
  \<open>define_dirichlet_bcs_T\<close>: one iteration of its loop on the state \<open>(bcs, expressions)\<close>,
  and the whole function.
\<close>

definition define_dirichlet_bc_T ::
  "simulation \<Rightarrow> dirichlet_bc list \<times> expr list \<Rightarrow> pydict
     \<Rightarrow> error + dirichlet_bc list \<times> expr list" where
  "define_dirichlet_bc_T sim st bc =
     err_bind (getitem bc ''type'') (\<lambda>ty.
     if ty = PStr ''dc'' then
       err_bind (getitem bc ''value'') (\<lambda>v.
       let val = Expression v 2;
           expressions = snd st @ [val] in
       err_bind (getitem bc ''surfaces'') (\<lambda>s.
       let surfaces = as_surface_list s in
       Inr (fst st @ map (\<lambda>surf. DirichletBC Space_V_CG1 val (sim_surface_markers sim) surf) surfaces,
            expressions)))
     else Inr st)"

fun define_dirichlet_bcs_T_loop ::
  "simulation \<Rightarrow> dirichlet_bc list \<times> expr list \<Rightarrow> pydict list
     \<Rightarrow> error + dirichlet_bc list \<times> expr list" where
  "define_dirichlet_bcs_T_loop sim st [] = Inr st"
| "define_dirichlet_bcs_T_loop sim st (bc # rest) =
     (case define_dirichlet_bc_T sim st bc of
        Inl e \<Rightarrow> Inl e
      | Inr st' \<Rightarrow> define_dirichlet_bcs_T_loop sim st' rest)"

definition define_dirichlet_bcs_T :: "simulation \<Rightarrow> error + dirichlet_bc list \<times> expr list" where
  "define_dirichlet_bcs_T sim =
     define_dirichlet_bcs_T_loop sim ([], []) (sim_temperature_boundary_conditions sim)"

text \<open>
  \<open>apply_fluxes\<close>, lines 70 to 76: the conservation-of-chemical-potential flag and the
  solute the flux terms are written in.
\<close>

definition apply_fluxes_conservation_chemic_pot ::
  "(point \<Rightarrow> real) option \<Rightarrow> pydict list \<Rightarrow> bool" where
  "apply_fluxes_conservation_chemic_pot S materials =
     (if S \<noteq> None then
        foldl (\<lambda>flag mat. if mat ''S_0'' \<noteq> None \<or> mat ''E_S'' \<noteq> None then True else flag)
          False materials
      else False)"

definition apply_fluxes_solute ::
  "(point \<Rightarrow> real) option \<Rightarrow> pydict list \<Rightarrow> (point \<Rightarrow> real) \<Rightarrow> point \<Rightarrow> real" where
  "apply_fluxes_solute S materials solute =
     (case S of
        None \<Rightarrow> solute
      | Some s \<Rightarrow>
          if apply_fluxes_conservation_chemic_pot S materials then (\<lambda>x. solute x * s x)
          else solute)"

text \<open>\<open>apply_boundary_conditions\<close>, lines 285 to 288: the flag of the essential path.\<close>

definition conservation_chemic_pot :: "pydict list \<Rightarrow> bool" where
  "conservation_chemic_pot materials =
     foldl (\<lambda>flag mat. if mat ''S_0'' \<noteq> None then True else flag) False materials"

text \<open>
  \<open>apply_boundary_conditions\<close>, lines 244 to 271: the value expression of the condition,
  on the state \<open>(expressions, value_BC)\<close>. \<open>value_BC\<close> is a local of the function, so a kind
  that none of the three branches handles leaves the value of the previous iteration
  (\<open>None\<close>: not yet bound).
\<close>

definition make_value_BC ::
  "simulation \<Rightarrow> pydict \<Rightarrow> pyval \<Rightarrow> expr list \<times> expr option
     \<Rightarrow> error + expr list \<times> expr option" where
  "make_value_BC sim BC type_BC st =
     (if type_BC = PStr ''dc'' then
        err_bind (getitem BC ''value'') (\<lambda>v.
        Inr (fst st, Some (Expression v 4)))
      else if type_BC = PStr ''solubility'' then
        err_bind (getitem BC ''pressure'') (\<lambda>p.
        let pressure = Expression p 2;
            expressions = fst st @ [pressure] in
        err_bind (getitem BC ''S_0'') (\<lambda>S_0.
        err_bind (getitem BC ''E_S'') (\<lambda>E_S.
        Inr (expressions, Some (BoundaryConditionSolubility S_0 E_S pressure (sim_T sim))))))
      else if type_BC = PStr ''dc_imp'' then
        err_bind (getitem BC ''implanted_flux'') (\<lambda>f.
        let phi = Expression f 1 in
        err_bind (getitem BC ''implantation_depth'') (\<lambda>d.
        let R_p = Expression d 1;
            expressions = fst st @ [phi, R_p] in
        err_bind (getitem BC ''D_0'') (\<lambda>D_0.
        err_bind (getitem BC ''E_D'') (\<lambda>E_D.
        let (K_0, E_K) =
              (case (BC ''K_0'', BC ''E_K'') of
                 (Some k, Some e) \<Rightarrow> (k, e)
               | _ \<Rightarrow> (PNone, PNone)) in
        Inr (expressions,
             Some (BoundaryConditionRecomb phi R_p K_0 E_K D_0 E_D (sim_T sim)))))))
      else Inr st)"

text \<open>
  \<open>apply_boundary_conditions\<close>, lines 279 to 284: the component a condition targets, the
  solute (0) by default.
\<close>

definition bc_component :: "pydict \<Rightarrow> pyval" where
  "bc_component BC = (case BC ''component'' of Some c \<Rightarrow> c | None \<Rightarrow> PInt 0)"

text \<open>
  \<open>apply_boundary_conditions\<close>, lines 240 to 308: one iteration of the loop on the state
  \<open>(bcs, expressions, value_BC)\<close>.
\<close>

definition apply_boundary_condition ::
  "bc_types \<Rightarrow> simulation \<Rightarrow> dirichlet_bc list \<times> expr list \<times> expr option \<Rightarrow> pydict
     \<Rightarrow> error + dirichlet_bc list \<times> expr list \<times> expr option" where
  "apply_boundary_condition bt sim st BC =
     (case st of (bcs, expressions0, value_BC0) \<Rightarrow>
     (case BC ''type'' of
        None \<Rightarrow> Inl (KeyError ''Missing boundary condition type key'')
      | Some type_BC \<Rightarrow>
          err_bind (make_value_BC sim BC type_BC (expressions0, value_BC0))
            (\<lambda>(expressions1, value_BC1).
          if \<not> py_in type_BC (bt_neumann bt) \<and> \<not> py_in type_BC (bt_robin bt)
             \<and> \<not> py_in type_BC (bt_dc bt) then
            (case type_BC of
               PStr s \<Rightarrow> Inl (NameError (''Unknown boundary condition type : '' @ s))
             | _ \<Rightarrow> Inl TypeError)
          else if py_in type_BC (bt_dc bt) then
            (let component = bc_component BC in
             case value_BC1 of
               None \<Rightarrow> Inl (UnboundLocalError ''value_BC'')
             | Some v \<Rightarrow>
                 let (expressions2, value_BC2) =
                       (if py_eq_zero component \<and> conservation_chemic_pot (sim_materials sim)
                        then (expressions1 @ [v],
                              BoundaryConditionTheta v (sim_mesh sim) (sim_materials sim)
                                (sim_volume_markers sim) (sim_T sim))
                        else (expressions1, v));
                     expressions3 = expressions2 @ [value_BC2] in
                 err_bind (getitem BC ''surfaces'') (\<lambda>s.
                 let surfaces = as_surface_list s;
                     funspace = (if sim_num_sub_spaces sim = 0 then Space_V
                                 else Space_V_sub component) in
                 Inr (bcs @ map (\<lambda>surface. DirichletBC funspace value_BC2
                                    (sim_surface_markers sim) surface) surfaces,
                      expressions3, Some value_BC2)))
          else Inr (bcs, expressions1, value_BC1))))"

fun apply_boundary_conditions_loop ::
  "bc_types \<Rightarrow> simulation \<Rightarrow> dirichlet_bc list \<times> expr list \<times> expr option \<Rightarrow> pydict list
     \<Rightarrow> error + dirichlet_bc list \<times> expr list \<times> expr option" where
  "apply_boundary_conditions_loop bt sim st [] = Inr st"
| "apply_boundary_conditions_loop bt sim st (BC # rest) =
     (case apply_boundary_condition bt sim st BC of
        Inl e \<Rightarrow> Inl e
      | Inr st' \<Rightarrow> apply_boundary_conditions_loop bt sim st' rest)"

definition apply_boundary_conditions ::
  "bc_types \<Rightarrow> simulation \<Rightarrow> error + dirichlet_bc list \<times> expr list" where
  "apply_boundary_conditions bt sim =
     (case apply_boundary_conditions_loop bt sim ([], [], None) (sim_boundary_conditions sim) of
        Inl e \<Rightarrow> Inl e
      | Inr (bcs, expressions, value_BC) \<Rightarrow> Inr (bcs, expressions))"

section \<open>The mass-transfer flux (festim/boundary\_conditions/fluxes/mass\_flux.py)\<close>

definition sieverts_constant :: "real \<Rightarrow> real \<Rightarrow> real \<Rightarrow> real \<Rightarrow> error + real" where
  "sieverts_constant k_B T S_0 E_S =
     err_bind (py_div (- E_S) k_B) (\<lambda>a.
     err_bind (py_div a T) (\<lambda>b.
     Inr (S_0 * exp b)))"

definition henry_constant :: "real \<Rightarrow> real \<Rightarrow> real \<Rightarrow> real \<Rightarrow> error + real" where
  "henry_constant k_B T H_0 E_H =
     err_bind (py_div (- E_H) k_B) (\<lambda>a.
     err_bind (py_div a T) (\<lambda>b.
     Inr (H_0 * exp b)))"

text \<open>
  A \<open>MassFlux\<close> object. \<open>create_form\<close> builds a symbolic form over the fields \<open>T\<close> and
  \<open>solute\<close>; a form is represented by its pointwise value (at time \<open>t\<close>, in a cell, at a
  point), so that building the form and evaluating it stay two stages: the only failure of
  the first is the one the source raises.
\<close>

type_synonym form = "real \<Rightarrow> nat \<Rightarrow> point \<Rightarrow> error + real"

record MassFlux =
  mf_h_coeff :: pyval
  mf_c_ext :: pyval
  mf_solubility_law :: string
  mf_pre_exp_liquid :: real
  mf_activation_energy_liquid :: real
  mf_S_0 :: real
  mf_E_S :: real
  mf_surfaces :: pyval
  mf_form :: "form option"
  mf_sub_expressions :: "expr list"

text \<open>
  The message of the \<open>ValueError\<close> of \<open>create_form\<close>:
  \<^verbatim>\<open>Invalid solubility law. Choose between 'sievert' or 'henry'\<close>.
\<close>

definition invalid_solubility_law :: string where
  "invalid_solubility_law =
     ''Invalid solubility law. Choose between 'sievert' or 'henry'' @ [CHR 0x27]"

text \<open>\<open>create_form\<close>, lines 45 to 54: the liquid-side interface concentration.\<close>

definition c_interface_liquid ::
  "real \<Rightarrow> MassFlux \<Rightarrow> (point \<Rightarrow> real) \<Rightarrow> (point \<Rightarrow> real) \<Rightarrow> error + (point \<Rightarrow> error + real)" where
  "c_interface_liquid k_B self T solute =
     (let S = (\<lambda>x. sieverts_constant k_B (T x) (mf_S_0 self) (mf_E_S self)) in
      if mf_solubility_law self = ''sievert'' then
        let solubility_liquid =
              (\<lambda>x. sieverts_constant k_B (T x) (mf_pre_exp_liquid self)
                     (mf_activation_energy_liquid self)) in
        Inr (\<lambda>x. err_bind (S x) (\<lambda>s.
                  err_bind (solubility_liquid x) (\<lambda>l.
                  err_bind (py_div (solute x) s) (\<lambda>q.
                  Inr (q * l)))))
      else if mf_solubility_law self = ''henry'' then
        let solubility_liquid =
              (\<lambda>x. henry_constant k_B (T x) (mf_pre_exp_liquid self)
                     (mf_activation_energy_liquid self)) in
        Inr (\<lambda>x. err_bind (S x) (\<lambda>s.
                  err_bind (solubility_liquid x) (\<lambda>l.
                  err_bind (py_div (solute x) s) (\<lambda>q.
                  Inr (q ^ 2 * l)))))
      else Inl (ValueError invalid_solubility_law))"

text \<open>\<open>MassFlux.create_form\<close>: returns the object with \<open>form\<close> and \<open>sub_expressions\<close> set.\<close>

definition create_form ::
  "real \<Rightarrow> MassFlux \<Rightarrow> (point \<Rightarrow> real) \<Rightarrow> (point \<Rightarrow> real) \<Rightarrow> error + MassFlux" where
  "create_form k_B self T solute =
     (let h_coeff = Expression (mf_h_coeff self) 1;
          c_ext = Expression (mf_c_ext self) 1 in
      err_bind (c_interface_liquid k_B self T solute) (\<lambda>ci.
      Inr (self\<lparr>mf_form :=
                   Some (\<lambda>t cell x.
                     err_bind (eval_expr k_B t cell h_coeff x) (\<lambda>h.
                     err_bind (ci x) (\<lambda>c.
                     err_bind (eval_expr k_B t cell c_ext x) (\<lambda>e.
                     Inr (- h * (c - e)))))),
                 mf_sub_expressions := [h_coeff, c_ext]\<rparr>)))"

section \<open>Notions used in the statements\<close>

text \<open>
  The Arrhenius law in the spec's words, \<open>P(T) = P_0 * exp(-E / (k_B * T))\<close>: the \<open>S(T)\<close>,
  \<open>D(T)\<close>, \<open>K(T)\<close> and \<open>H(T)\<close> of the claims.
\<close>

definition spec_arrhenius :: "real \<Rightarrow> real \<Rightarrow> real \<Rightarrow> real \<Rightarrow> real" where
  "spec_arrhenius k_B P_0 E T = P_0 * exp (- E / (k_B * T))"

text \<open>
  The condition under which the essential path wraps a value: the condition targets
  component 0 and some declared material has the key \<open>S_0\<close>.
\<close>

definition theta_applies :: "simulation \<Rightarrow> pydict \<Rightarrow> bool" where
  "theta_applies sim BC =
     (py_eq_zero (bc_component BC) \<and> (\<exists>m \<in> set (sim_materials sim). m ''S_0'' \<noteq> None))"

text \<open>The wrapper built at lines 293 to 295.\<close>

definition theta_of :: "simulation \<Rightarrow> expr \<Rightarrow> expr" where
  "theta_of sim v =
     BoundaryConditionTheta v (sim_mesh sim) (sim_materials sim) (sim_volume_markers sim)
       (sim_T sim)"

text \<open>The target space chosen at lines 301 to 304.\<close>

definition bc_funspace :: "simulation \<Rightarrow> pydict \<Rightarrow> funspace" where
  "bc_funspace sim BC =
     (if sim_num_sub_spaces sim = 0 then Space_V else Space_V_sub (bc_component BC))"



text \<open>
  A material defines solubility parameters, in the claim's words (\<open>S_0\<close>/\<open>E_S\<close>), and the
  invariant of the data model: a material defines both parameters or neither.
\<close>

definition defines_solubility :: "pydict \<Rightarrow> bool" where
  "defines_solubility m = (m ''S_0'' \<noteq> None \<or> m ''E_S'' \<noteq> None)"

definition material_invariant :: "pydict \<Rightarrow> bool" where
  "material_invariant m = ((m ''S_0'' = None) = (m ''E_S'' = None))"

text \<open>
  The condition targets the primary (solute) field: component 0, the default when the key
  \<open>component\<close> is absent.
\<close>

definition targets_solute :: "pydict \<Rightarrow> bool" where
  "targets_solute BC = (BC ''component'' \<in> {None, Some (PInt 0), Some (PFloat 0)})"






text \<open>Concrete inputs for the worked instances below.\<close>

definition example_simulation :: "pydict list \<Rightarrow> pydict list \<Rightarrow> simulation" where
  "example_simulation BCs materials =
     \<lparr>sim_boundary_conditions = BCs, sim_materials = materials,
      sim_temperature_boundary_conditions = BCs, sim_num_sub_spaces = 0, sim_mesh = 0,
      sim_volume_markers = (\<lambda>cell. 1), sim_surface_markers = 0, sim_T = (\<lambda>x. 1),
      sim_S = None\<rparr>"

definition example_mass_flux :: "string \<Rightarrow> MassFlux" where
  "example_mass_flux law =
     \<lparr>mf_h_coeff = PFloat 2, mf_c_ext = PFloat 1, mf_solubility_law = law,
      mf_pre_exp_liquid = 3, mf_activation_energy_liquid = 0, mf_S_0 = 2, mf_E_S = 0,
      mf_surfaces = PInt 1, mf_form = None, mf_sub_expressions = []\<rparr>"

definition example_material :: pydict where
  "example_material = [''id'' \<mapsto> PInt 1, ''S_0'' \<mapsto> PFloat 2, ''E_S'' \<mapsto> PFloat 0]"

definition example_simulation_S :: "pydict list \<Rightarrow> simulation" where
  "example_simulation_S materials =
     (example_simulation [] materials)\<lparr>sim_num_sub_spaces := 2, sim_S := Some (\<lambda>x. 1)\<rparr>"

definition example_dc :: pydict where
  "example_dc = [''type'' \<mapsto> PStr ''dc'', ''value'' \<mapsto> PFloat 1, ''surfaces'' \<mapsto> PInt 1]"

definition example_plain_material :: pydict where
  "example_plain_material = [''id'' \<mapsto> PInt 1]"

definition example_dc_imp :: pydict where
  "example_dc_imp =
     [''type'' \<mapsto> PStr ''dc_imp'', ''implanted_flux'' \<mapsto> PFloat 4,
      ''implantation_depth'' \<mapsto> PFloat 3, ''D_0'' \<mapsto> PFloat 2, ''E_D'' \<mapsto> PFloat 0,
      ''K_0'' \<mapsto> PFloat 1, ''surfaces'' \<mapsto> PInt 1]"

section \<open>Auxiliary lemmas\<close>

lemma err_bind_Inr [simp]: "err_bind (Inr v) f = f v"
  by (simp add: err_bind_def)

lemma err_bind_Inl [simp]: "err_bind (Inl e) f = Inl e"
  by (simp add: err_bind_def)

lemma py_div_nonzero: "b \<noteq> 0 \<Longrightarrow> py_div a b = Inr (a / b)"
  by (simp add: py_div_def)

lemma py_div_zero: "py_div a 0 = Inl ZeroDivisionError"
  by (simp add: py_div_def)

lemma arrhenius_value:
  assumes "k_B \<noteq> 0" "T \<noteq> 0" "as_float E = Inr e" "as_float P_0 = Inr p"
  shows "arrhenius k_B P_0 E T = Inr (spec_arrhenius k_B p e T)"
  using assms by (simp add: arrhenius_def py_div_nonzero spec_arrhenius_def)

lemma spec_arrhenius_nonzero: "p \<noteq> 0 \<Longrightarrow> spec_arrhenius k_B p e T \<noteq> 0"
  by (simp add: spec_arrhenius_def)

lemma spec_arrhenius_pos: "0 < p \<Longrightarrow> 0 < spec_arrhenius k_B p e T"
  by (simp add: spec_arrhenius_def)

lemma recomb_eval_instantaneous:
  assumes "k_B \<noteq> 0" "T x \<noteq> 0" "as_float D_0 = Inr d0" "d0 \<noteq> 0" "as_float E_D = Inr ed"
    "phi x = Inr p" "R_p x = Inr r"
  shows "BoundaryConditionRecomb_eval k_B phi R_p PNone E_K D_0 E_D T x =
           Inr (p * r / spec_arrhenius k_B d0 ed (T x))"
  using assms
  by (simp add: BoundaryConditionRecomb_eval_def arrhenius_value py_div_nonzero
      spec_arrhenius_nonzero)

lemma recomb_eval_finite:
  assumes "k_B \<noteq> 0" "T x \<noteq> 0" "as_float D_0 = Inr d0" "d0 \<noteq> 0" "as_float E_D = Inr ed"
    "phi x = Inr p" "R_p x = Inr r"
    "as_float K_0 = Inr k0" "k0 \<noteq> 0" "as_float E_K = Inr ek"
    "0 \<le> p / spec_arrhenius k_B k0 ek (T x)"
  shows "BoundaryConditionRecomb_eval k_B phi R_p K_0 E_K D_0 E_D T x =
           Inr (p * r / spec_arrhenius k_B d0 ed (T x)
                + sqrt (p / spec_arrhenius k_B k0 ek (T x)))"
proof -
  have "K_0 \<noteq> PNone" using assms(8) by auto
  then show ?thesis
    using assms
    by (simp add: BoundaryConditionRecomb_eval_def arrhenius_value py_div_nonzero
        spec_arrhenius_nonzero py_pow_half_def)
qed

lemma foldl_flag_True:
  "foldl (\<lambda>flag mat. if P mat then True else flag) True ms = True"
  by (induction ms) simp_all

lemma foldl_flag:
  "foldl (\<lambda>flag mat. if P mat then True else flag) False ms = (\<exists>m \<in> set ms. P m)"
  by (induction ms) (simp_all add: foldl_flag_True)

lemma conservation_chemic_pot_iff:
  "conservation_chemic_pot materials = (\<exists>m \<in> set materials. m ''S_0'' \<noteq> None)"
  unfolding conservation_chemic_pot_def by (rule foldl_flag)

lemma apply_fluxes_conservation_chemic_pot_iff:
  "apply_fluxes_conservation_chemic_pot S materials =
     (S \<noteq> None \<and> (\<exists>m \<in> set materials. m ''S_0'' \<noteq> None \<or> m ''E_S'' \<noteq> None))"
  unfolding apply_fluxes_conservation_chemic_pot_def by (simp add: foldl_flag)

lemma getitem_Some: "d k = Some v \<Longrightarrow> getitem d k = Inr v"
  by (simp add: getitem_def)

lemma getitem_None: "d k = None \<Longrightarrow> getitem d k = Inl (KeyError k)"
  by (simp add: getitem_def)

lemma essential_step:
  assumes "BC ''type'' = Some ty" and "py_in ty (bt_dc bt)"
    and "make_value_BC sim BC ty (exprs, vb) = Inr (exprs1, Some v)"
    and "BC ''surfaces'' = Some s"
  shows "apply_boundary_condition bt sim (bcs, exprs, vb) BC =
           (if theta_applies sim BC then
              Inr (bcs @ map (DirichletBC (bc_funspace sim BC) (theta_of sim v)
                               (sim_surface_markers sim)) (as_surface_list s),
                   exprs1 @ [v, theta_of sim v], Some (theta_of sim v))
            else
              Inr (bcs @ map (DirichletBC (bc_funspace sim BC) v (sim_surface_markers sim))
                           (as_surface_list s),
                   exprs1 @ [v], Some v))"
  using assms
  by (simp add: apply_boundary_condition_def theta_applies_def theta_of_def bc_funspace_def
      conservation_chemic_pot_iff getitem_Some Let_def)

lemma make_value_BC_prefix:
  "make_value_BC sim BC ty (exprs, vb) = Inr (exprs1, vb1) \<Longrightarrow> prefix exprs exprs1"
  by (auto simp: make_value_BC_def err_bind_def getitem_def Let_def
      split: if_splits option.splits prod.splits)

lemma make_value_BC_unknown:
  "ty \<noteq> PStr ''dc'' \<Longrightarrow> ty \<noteq> PStr ''solubility'' \<Longrightarrow> ty \<noteq> PStr ''dc_imp'' \<Longrightarrow>
     make_value_BC sim BC ty st = Inr st"
  by (simp add: make_value_BC_def)

lemma unknown_step:
  assumes "BC ''type'' = Some (PStr k)"
    and "k \<notin> set (bt_dc bt)" and "k \<notin> set (bt_neumann bt)" and "k \<notin> set (bt_robin bt)"
    and "set [''dc'', ''solubility'', ''dc_imp''] \<subseteq> set (bt_dc bt)"
  shows "apply_boundary_condition bt sim st BC =
           Inl (NameError (''Unknown boundary condition type : '' @ k))"
proof -
  have "PStr k \<noteq> PStr ''dc''" "PStr k \<noteq> PStr ''solubility''" "PStr k \<noteq> PStr ''dc_imp''"
    using assms(2,5) by auto
  then have "make_value_BC sim BC (PStr k) (fst (snd st), snd (snd st)) = Inr (fst (snd st), snd (snd st))"
    by (rule make_value_BC_unknown)
  then show ?thesis
    using assms(1-4) by (cases st) (simp add: apply_boundary_condition_def)
qed

lemma loop_append:
  "apply_boundary_conditions_loop bt sim st (xs @ ys) =
     (case apply_boundary_conditions_loop bt sim st xs of
        Inl e \<Rightarrow> Inl e
      | Inr st' \<Rightarrow> apply_boundary_conditions_loop bt sim st' ys)"
  by (induction xs arbitrary: st) (simp_all split: sum.splits)


lemma step_prefix:
  assumes "apply_boundary_condition bt sim (bcs, exprs, vb) BC = Inr (bcs', exprs', vb')"
  shows "prefix bcs bcs' \<and> prefix exprs exprs'"
proof (cases "BC ''type''")
  case None
  with assms show ?thesis by (simp add: apply_boundary_condition_def)
next
  case (Some ty)
  show ?thesis
  proof (cases "make_value_BC sim BC ty (exprs, vb)")
    case (Inl e)
    with assms Some show ?thesis by (simp add: apply_boundary_condition_def)
  next
    case (Inr r)
    obtain exprs1 vb1 where r: "r = (exprs1, vb1)" by (cases r)
    have p: "prefix exprs exprs1" using Inr r by (auto dest: make_value_BC_prefix)
    from assms Some Inr r have "prefix bcs bcs' \<and> prefix exprs1 exprs'"
      by (auto simp: apply_boundary_condition_def err_bind_def getitem_def Let_def
          split: if_splits option.splits pyval.splits)
    with p show ?thesis by (auto intro: prefix_order.trans)
  qed
qed

lemma loop_prefix:
  "apply_boundary_conditions_loop bt sim st BCs = Inr st' \<Longrightarrow>
     prefix (fst st) (fst st') \<and> prefix (fst (snd st)) (fst (snd st'))"
proof (induction BCs arbitrary: st)
  case Nil
  then show ?case by simp
next
  case (Cons BC BCs)
  then obtain st1 where s1: "apply_boundary_condition bt sim st BC = Inr st1"
    and l: "apply_boundary_conditions_loop bt sim st1 BCs = Inr st'"
    by (auto split: sum.splits)
  from s1 have "prefix (fst st) (fst st1) \<and> prefix (fst (snd st)) (fst (snd st1))"
    using step_prefix [of bt sim "fst st" "fst (snd st)" "snd (snd st)" BC
        "fst st1" "fst (snd st1)" "snd (snd st1)"] by simp
  moreover from Cons.IH [OF l]
  have "prefix (fst st1) (fst st') \<and> prefix (fst (snd st1)) (fst (snd st'))" .
  ultimately show ?case by (auto intro: prefix_order.trans)
qed

















lemma recomb_eval_expr:
  "eval_expr k_B t cell (BoundaryConditionRecomb phi R_p K_0 E_K D_0 E_D T) x =
     BoundaryConditionRecomb_eval k_B (eval_expr k_B t cell phi) (eval_expr k_B t cell R_p)
       K_0 E_K D_0 E_D T x"
  by simp

lemma sieverts_constant_value:
  "k_B \<noteq> 0 \<Longrightarrow> T \<noteq> 0 \<Longrightarrow> sieverts_constant k_B T S_0 E_S = Inr (spec_arrhenius k_B S_0 E_S T)"
  by (simp add: sieverts_constant_def py_div_nonzero spec_arrhenius_def)

lemma henry_constant_value:
  "k_B \<noteq> 0 \<Longrightarrow> T \<noteq> 0 \<Longrightarrow> henry_constant k_B T H_0 E_H = Inr (spec_arrhenius k_B H_0 E_H T)"
  by (simp add: henry_constant_def py_div_nonzero spec_arrhenius_def)

lemma c_interface_liquid_invalid:
  "mf_solubility_law self \<noteq> ''sievert'' \<Longrightarrow> mf_solubility_law self \<noteq> ''henry'' \<Longrightarrow>
     c_interface_liquid k_B self T solute = Inl (ValueError invalid_solubility_law)"
  by (simp add: c_interface_liquid_def)

lemma c_interface_liquid_sievert:
  assumes "k_B \<noteq> 0" and "T x \<noteq> 0" and "mf_S_0 self \<noteq> 0"
    and "mf_solubility_law self = ''sievert''"
  shows "\<exists>ci. c_interface_liquid k_B self T solute = Inr ci \<and>
           ci x = Inr (solute x / spec_arrhenius k_B (mf_S_0 self) (mf_E_S self) (T x)
                       * spec_arrhenius k_B (mf_pre_exp_liquid self)
                           (mf_activation_energy_liquid self) (T x))"
  using assms
  by (simp add: c_interface_liquid_def sieverts_constant_value py_div_nonzero
      spec_arrhenius_nonzero)

lemma c_interface_liquid_henry:
  assumes "k_B \<noteq> 0" and "T x \<noteq> 0" and "mf_S_0 self \<noteq> 0"
    and "mf_solubility_law self = ''henry''"
  shows "\<exists>ci. c_interface_liquid k_B self T solute = Inr ci \<and>
           ci x = Inr ((solute x / spec_arrhenius k_B (mf_S_0 self) (mf_E_S self) (T x)) ^ 2
                       * spec_arrhenius k_B (mf_pre_exp_liquid self)
                           (mf_activation_energy_liquid self) (T x))"
  using assms
  by (simp add: c_interface_liquid_def sieverts_constant_value henry_constant_value
      py_div_nonzero spec_arrhenius_nonzero)

lemma create_form_value:
  assumes "c_interface_liquid k_B self T solute = Inr ci" and "ci x = Inr c"
    and "sym_eval (mf_h_coeff self) t x = Inr h" and "sym_eval (mf_c_ext self) t x = Inr e"
  shows "\<exists>self' f. create_form k_B self T solute = Inr self' \<and> mf_form self' = Some f \<and>
           f t cell x = Inr (- h * (c - e)) \<and>
           mf_sub_expressions self' = [Expression (mf_h_coeff self) 1, Expression (mf_c_ext self) 1]"
  using assms by (simp add: create_form_def)

lemma find_material_from_id_member:
  "find_material_from_id ms i = Inr m \<Longrightarrow> m \<in> set ms"
  by (induction ms) (auto split: if_splits)

lemma find_material_from_id_found:
  "\<exists>m \<in> set ms. m ''id'' = Some (PInt i) \<Longrightarrow> \<exists>m. find_material_from_id ms i = Inr m"
  by (induction ms) auto

lemma theta_eval_cell_value:
  assumes "k_B \<noteq> 0" and "T x \<noteq> 0"
    and "find_material_from_id materials (vm cell) = Inr m"
    and "m ''S_0'' = Some S_0" and "m ''E_S'' = Some E_S"
    and "as_float S_0 = Inr s0" and "s0 \<noteq> 0" and "as_float E_S = Inr es"
    and "bci x = Inr c"
  shows "BoundaryConditionTheta_eval_cell k_B bci materials vm T cell x =
           Inr (c / spec_arrhenius k_B s0 es (T x))"
  using assms
  by (simp add: BoundaryConditionTheta_eval_cell_def getitem_Some arrhenius_value
      py_div_nonzero spec_arrhenius_nonzero)

lemma thermal_skip:
  "bc ''type'' = Some ty \<Longrightarrow> ty \<noteq> PStr ''dc'' \<Longrightarrow> define_dirichlet_bc_T sim st bc = Inr st"
  by (simp add: define_dirichlet_bc_T_def getitem_Some)

lemma make_value_BC_dc_imp:
  assumes "BC ''implanted_flux'' = Some f" and "BC ''implantation_depth'' = Some d"
    and "BC ''D_0'' = Some D_0" and "BC ''E_D'' = Some E_D"
    and "BC ''K_0'' = None \<or> BC ''E_K'' = None"
  shows "make_value_BC sim BC (PStr ''dc_imp'') (exprs, vb) =
           Inr (exprs @ [Expression f 1, Expression d 1],
                Some (BoundaryConditionRecomb (Expression f 1) (Expression d 1) PNone PNone
                        D_0 E_D (sim_T sim)))"
  using assms
  by (auto simp: make_value_BC_def getitem_Some Let_def split: option.splits)

lemma py_eq_zero_iff: "py_eq_zero c = (c = PInt 0 \<or> c = PFloat 0)"
  by (cases c) auto

lemma targets_solute_iff: "targets_solute BC = py_eq_zero (bc_component BC)"
  by (auto simp: targets_solute_def bc_component_def py_eq_zero_iff split: option.splits)

lemma invariant_mode:
  assumes "\<forall>m \<in> set materials. material_invariant m"
  shows "(\<exists>m \<in> set materials. m ''S_0'' \<noteq> None) = (\<exists>m \<in> set materials. defines_solubility m)"
    and "(\<exists>m \<in> set materials. m ''S_0'' \<noteq> None \<or> m ''E_S'' \<noteq> None) =
         (\<exists>m \<in> set materials. defines_solubility m)"
    and "(\<exists>m \<in> set materials. m ''S_0'' \<noteq> None \<and> m ''E_S'' \<noteq> None) =
         (\<exists>m \<in> set materials. defines_solubility m)"
  using assms by (auto simp: material_invariant_def defines_solubility_def)

lemma example_dc_keys:
  "example_dc ''type'' = Some (PStr ''dc'')" "example_dc ''surfaces'' = Some (PInt 1)"
  "example_dc ''component'' = None" "example_dc ''value'' = Some (PFloat 1)"
  "(example_dc(''component'' \<mapsto> c)) ''type'' = Some (PStr ''dc'')"
  "(example_dc(''component'' \<mapsto> c)) ''surfaces'' = Some (PInt 1)"
  "(example_dc(''component'' \<mapsto> c)) ''component'' = Some c"
  "(example_dc(''component'' \<mapsto> c)) ''value'' = Some (PFloat 1)"
  by (simp_all add: example_dc_def)

lemma make_value_BC_dc:
  "BC ''value'' = Some a \<Longrightarrow>
     make_value_BC sim BC (PStr ''dc'') (exprs, vb) = Inr (exprs, Some (Expression a 4))"
  by (simp add: make_value_BC_def getitem_Some)

lemma example_simulation_S_fields:
  "sim_materials (example_simulation_S ms) = ms" "sim_num_sub_spaces (example_simulation_S ms) = 2"
  "sim_S (example_simulation_S ms) = Some (\<lambda>x. 1)" "sim_mesh (example_simulation_S ms) = 0"
  "sim_surface_markers (example_simulation_S ms) = 0"
  "sim_volume_markers (example_simulation_S ms) = (\<lambda>cell. 1)"
  "sim_T (example_simulation_S ms) = (\<lambda>x. 1)"
  by (simp_all add: example_simulation_S_def example_simulation_def)

lemma example_dc_imp_keys:
  "example_dc_imp ''type'' = Some (PStr ''dc_imp'')"
  "example_dc_imp ''implanted_flux'' = Some (PFloat 4)"
  "example_dc_imp ''implantation_depth'' = Some (PFloat 3)"
  "example_dc_imp ''D_0'' = Some (PFloat 2)" "example_dc_imp ''E_D'' = Some (PFloat 0)"
  "example_dc_imp ''surfaces'' = Some (PInt 1)"
  "(example_dc_imp ''K_0'' = None) \<noteq> (example_dc_imp ''E_K'' = None)"
  "example_dc_imp ''component'' = None"
  by (simp_all add: example_dc_imp_def)







section \<open>The claims\<close>

text \<open>
  C1. Under the invariant of the data model (every declared material defines both \<open>S_0\<close>
  and \<open>E_S\<close> or neither), the flag of \<open>apply_boundary_conditions\<close> is set exactly when some
  declared material defines solubility parameters, whether that is read as one of the two
  keys or as both; the flag of \<open>apply_fluxes\<close> is set on the same condition whenever the
  solubility field \<open>S\<close> is supplied. For a Dirichlet-class condition whose value expression
  \<open>v\<close> has been built, the value imposed and registered is the theta wrapper of \<open>v\<close> if and
  only if that mode is enabled and the condition targets component 0 (key \<open>component\<close>
  absent, or equal to 0); otherwise it is \<open>v\<close> itself.
\<close>

theorem conservation_mode_and_theta_wrapping:
  assumes "\<forall>m \<in> set (sim_materials sim). material_invariant m"
    and "BC ''type'' = Some ty" and "py_in ty (bt_dc bt)"
    and "make_value_BC sim BC ty (exprs, vb) = Inr (exprs1, Some v)"
    and "BC ''surfaces'' = Some s"
  shows "conservation_chemic_pot (sim_materials sim) =
           (\<exists>m \<in> set (sim_materials sim). defines_solubility m) \<and>
         (\<exists>m \<in> set (sim_materials sim). defines_solubility m) =
           (\<exists>m \<in> set (sim_materials sim). m ''S_0'' \<noteq> None \<and> m ''E_S'' \<noteq> None) \<and>
         (sim_S sim \<noteq> None \<longrightarrow>
            apply_fluxes_conservation_chemic_pot (sim_S sim) (sim_materials sim) =
              (\<exists>m \<in> set (sim_materials sim). defines_solubility m)) \<and>
         apply_boundary_condition bt sim (bcs, exprs, vb) BC =
           (if (\<exists>m \<in> set (sim_materials sim). defines_solubility m) \<and> targets_solute BC then
              Inr (bcs @ map (DirichletBC (bc_funspace sim BC) (theta_of sim v)
                               (sim_surface_markers sim)) (as_surface_list s),
                   exprs1 @ [v, theta_of sim v], Some (theta_of sim v))
            else
              Inr (bcs @ map (DirichletBC (bc_funspace sim BC) v (sim_surface_markers sim))
                           (as_surface_list s),
                   exprs1 @ [v], Some v))"
proof -
  note inv = invariant_mode [OF assms(1)]
  have a: "conservation_chemic_pot (sim_materials sim) =
           (\<exists>m \<in> set (sim_materials sim). defines_solubility m)"
    unfolding conservation_chemic_pot_iff by (rule inv(1))
  have b: "(\<exists>m \<in> set (sim_materials sim). defines_solubility m) =
           (\<exists>m \<in> set (sim_materials sim). m ''S_0'' \<noteq> None \<and> m ''E_S'' \<noteq> None)"
    by (rule inv(3) [symmetric])
  have c: "sim_S sim \<noteq> None \<longrightarrow>
            apply_fluxes_conservation_chemic_pot (sim_S sim) (sim_materials sim) =
              (\<exists>m \<in> set (sim_materials sim). defines_solubility m)"
    unfolding apply_fluxes_conservation_chemic_pot_iff using inv(2) by simp
  have th: "theta_applies sim BC =
              ((\<exists>m \<in> set (sim_materials sim). defines_solubility m) \<and> targets_solute BC)"
    unfolding theta_applies_def targets_solute_iff using inv(1) by auto
  have d: "apply_boundary_condition bt sim (bcs, exprs, vb) BC =
           (if (\<exists>m \<in> set (sim_materials sim). defines_solubility m) \<and> targets_solute BC then
              Inr (bcs @ map (DirichletBC (bc_funspace sim BC) (theta_of sim v)
                               (sim_surface_markers sim)) (as_surface_list s),
                   exprs1 @ [v, theta_of sim v], Some (theta_of sim v))
            else
              Inr (bcs @ map (DirichletBC (bc_funspace sim BC) v (sim_surface_markers sim))
                           (as_surface_list s),
                   exprs1 @ [v], Some v))"
    using essential_step [OF assms(2-5), of bcs] th by simp
  from a b c d show ?thesis by blast
qed

theorem conservation_mode_and_theta_wrapping_witness:
  "apply_boundary_condition festim_bc_types (example_simulation_S [example_material])
     ([], [], None) example_dc =
     Inr ([DirichletBC (Space_V_sub (PInt 0))
             (BoundaryConditionTheta (Expression (PFloat 1) 4) 0 [example_material] (\<lambda>cell. 1)
                (\<lambda>x. 1)) 0 (PInt 1)],
          [Expression (PFloat 1) 4,
           BoundaryConditionTheta (Expression (PFloat 1) 4) 0 [example_material] (\<lambda>cell. 1)
             (\<lambda>x. 1)],
          Some (BoundaryConditionTheta (Expression (PFloat 1) 4) 0 [example_material]
                  (\<lambda>cell. 1) (\<lambda>x. 1))) \<and>
   apply_boundary_condition festim_bc_types (example_simulation_S [example_material])
     ([], [], None) (example_dc(''component'' \<mapsto> PInt 0)) =
     Inr ([DirichletBC (Space_V_sub (PInt 0))
             (BoundaryConditionTheta (Expression (PFloat 1) 4) 0 [example_material] (\<lambda>cell. 1)
                (\<lambda>x. 1)) 0 (PInt 1)],
          [Expression (PFloat 1) 4,
           BoundaryConditionTheta (Expression (PFloat 1) 4) 0 [example_material] (\<lambda>cell. 1)
             (\<lambda>x. 1)],
          Some (BoundaryConditionTheta (Expression (PFloat 1) 4) 0 [example_material]
                  (\<lambda>cell. 1) (\<lambda>x. 1))) \<and>
   apply_boundary_condition festim_bc_types (example_simulation_S [example_material])
     ([], [], None) (example_dc(''component'' \<mapsto> PInt 1)) =
     Inr ([DirichletBC (Space_V_sub (PInt 1)) (Expression (PFloat 1) 4) 0 (PInt 1)],
          [Expression (PFloat 1) 4], Some (Expression (PFloat 1) 4)) \<and>
   apply_boundary_condition festim_bc_types (example_simulation_S [example_plain_material])
     ([], [], None) example_dc =
     Inr ([DirichletBC (Space_V_sub (PInt 0)) (Expression (PFloat 1) 4) 0 (PInt 1)],
          [Expression (PFloat 1) 4], Some (Expression (PFloat 1) 4)) \<and>
   conservation_chemic_pot (sim_materials (example_simulation_S [example_material])) \<and>
   apply_fluxes_conservation_chemic_pot (sim_S (example_simulation_S [example_material]))
     (sim_materials (example_simulation_S [example_material])) \<and>
   \<not> conservation_chemic_pot (sim_materials (example_simulation_S [example_plain_material])) \<and>
   \<not> apply_fluxes_conservation_chemic_pot (sim_S (example_simulation_S [example_plain_material]))
     (sim_materials (example_simulation_S [example_plain_material]))"
proof -
  let ?sim = "example_simulation_S [example_material]"
  let ?plain = "example_simulation_S [example_plain_material]"
  have inv: "\<forall>m \<in> set (sim_materials ?sim). material_invariant m"
    "\<forall>m \<in> set (sim_materials ?plain). material_invariant m"
    by (simp_all add: example_simulation_S_fields material_invariant_def example_material_def
        example_plain_material_def)
  have dc: "py_in (PStr ''dc'') (bt_dc festim_bc_types)" by (simp add: festim_bc_types_def)
  have mode: "\<exists>m \<in> set (sim_materials ?sim). defines_solubility m"
    "\<not> (\<exists>m \<in> set (sim_materials ?plain). defines_solubility m)"
    by (simp_all add: example_simulation_S_fields defines_solubility_def example_material_def
        example_plain_material_def)
  have S: "sim_S ?sim \<noteq> None" "sim_S ?plain \<noteq> None"
    by (simp_all add: example_simulation_S_fields)
  have tgt: "targets_solute example_dc" "targets_solute (example_dc(''component'' \<mapsto> PInt 0))"
    "\<not> targets_solute (example_dc(''component'' \<mapsto> PInt 1))"
    by (simp_all add: targets_solute_def example_dc_keys)
  have fs: "bc_funspace sim' example_dc = (if sim_num_sub_spaces sim' = 0 then Space_V
                                           else Space_V_sub (PInt 0))"
    "bc_funspace sim' (example_dc(''component'' \<mapsto> c)) =
       (if sim_num_sub_spaces sim' = 0 then Space_V else Space_V_sub c)" for sim' c
    by (simp_all add: bc_funspace_def bc_component_def example_dc_keys)
  note t1 = conservation_mode_and_theta_wrapping [where BC = example_dc and sim = ?sim
      and bcs = "[]" and exprs = "[]" and vb = None, OF inv(1) example_dc_keys(1) dc
      make_value_BC_dc [where BC = example_dc, OF example_dc_keys(4)] example_dc_keys(2)]
  note t2 = conservation_mode_and_theta_wrapping
      [where BC = "example_dc(''component'' \<mapsto> PInt 0)" and sim = ?sim
      and bcs = "[]" and exprs = "[]" and vb = None, OF inv(1) example_dc_keys(5) dc
      make_value_BC_dc [where BC = "example_dc(''component'' \<mapsto> PInt 0)",
        OF example_dc_keys(8)] example_dc_keys(6)]
  note t3 = conservation_mode_and_theta_wrapping
      [where BC = "example_dc(''component'' \<mapsto> PInt 1)" and sim = ?sim
      and bcs = "[]" and exprs = "[]" and vb = None, OF inv(1) example_dc_keys(5) dc
      make_value_BC_dc [where BC = "example_dc(''component'' \<mapsto> PInt 1)",
        OF example_dc_keys(8)] example_dc_keys(6)]
  note t4 = conservation_mode_and_theta_wrapping [where BC = example_dc and sim = ?plain
      and bcs = "[]" and exprs = "[]" and vb = None, OF inv(2) example_dc_keys(1) dc
      make_value_BC_dc [where BC = example_dc, OF example_dc_keys(4)] example_dc_keys(2)]
  have c1: "(\<exists>m \<in> set (sim_materials ?sim). defines_solubility m) \<and> targets_solute example_dc"
    using mode(1) tgt(1) by blast
  from t1 [THEN conjunct2, THEN conjunct2, THEN conjunct2, unfolded if_P [OF c1]] have 1: "apply_boundary_condition festim_bc_types ?sim
     ([], [], None) example_dc =
     Inr ([DirichletBC (Space_V_sub (PInt 0))
             (BoundaryConditionTheta (Expression (PFloat 1) 4) 0 [example_material] (\<lambda>cell. 1)
                (\<lambda>x. 1)) 0 (PInt 1)],
          [Expression (PFloat 1) 4,
           BoundaryConditionTheta (Expression (PFloat 1) 4) 0 [example_material] (\<lambda>cell. 1)
             (\<lambda>x. 1)],
          Some (BoundaryConditionTheta (Expression (PFloat 1) 4) 0 [example_material]
                  (\<lambda>cell. 1) (\<lambda>x. 1)))"
    by (simp add: fs theta_of_def example_simulation_S_fields)
  have c2: "(\<exists>m \<in> set (sim_materials ?sim). defines_solubility m) \<and>
      targets_solute (example_dc(''component'' \<mapsto> PInt 0))"
    using mode(1) tgt(2) by blast
  from t2 [THEN conjunct2, THEN conjunct2, THEN conjunct2, unfolded if_P [OF c2]] have 2: "apply_boundary_condition festim_bc_types ?sim
     ([], [], None) (example_dc(''component'' \<mapsto> PInt 0)) =
     Inr ([DirichletBC (Space_V_sub (PInt 0))
             (BoundaryConditionTheta (Expression (PFloat 1) 4) 0 [example_material] (\<lambda>cell. 1)
                (\<lambda>x. 1)) 0 (PInt 1)],
          [Expression (PFloat 1) 4,
           BoundaryConditionTheta (Expression (PFloat 1) 4) 0 [example_material] (\<lambda>cell. 1)
             (\<lambda>x. 1)],
          Some (BoundaryConditionTheta (Expression (PFloat 1) 4) 0 [example_material]
                  (\<lambda>cell. 1) (\<lambda>x. 1)))"
    by (simp add: fs theta_of_def example_simulation_S_fields)
  have c3: "\<not> ((\<exists>m \<in> set (sim_materials ?sim). defines_solubility m) \<and>
      targets_solute (example_dc(''component'' \<mapsto> PInt 1)))"
    using tgt(3) by blast
  from t3 [THEN conjunct2, THEN conjunct2, THEN conjunct2, unfolded if_not_P [OF c3]] have 3: "apply_boundary_condition festim_bc_types ?sim
     ([], [], None) (example_dc(''component'' \<mapsto> PInt 1)) =
     Inr ([DirichletBC (Space_V_sub (PInt 1)) (Expression (PFloat 1) 4) 0 (PInt 1)],
          [Expression (PFloat 1) 4], Some (Expression (PFloat 1) 4))"
    by (simp add: fs example_simulation_S_fields)
  have c4: "\<not> ((\<exists>m \<in> set (sim_materials ?plain). defines_solubility m) \<and>
      targets_solute example_dc)"
    using mode(2) by blast
  from t4 [THEN conjunct2, THEN conjunct2, THEN conjunct2, unfolded if_not_P [OF c4]] have 4: "apply_boundary_condition festim_bc_types ?plain
     ([], [], None) example_dc =
     Inr ([DirichletBC (Space_V_sub (PInt 0)) (Expression (PFloat 1) 4) 0 (PInt 1)],
          [Expression (PFloat 1) 4], Some (Expression (PFloat 1) 4))"
    by (simp add: fs example_simulation_S_fields)
  from t1 mode(1) S(1) have 5: "conservation_chemic_pot (sim_materials ?sim)"
    "apply_fluxes_conservation_chemic_pot (sim_S ?sim) (sim_materials ?sim)"
    by blast+
  from t4 mode(2) S(2) have 6: "\<not> conservation_chemic_pot (sim_materials ?plain)"
    "\<not> apply_fluxes_conservation_chemic_pot (sim_S ?plain) (sim_materials ?plain)"
    by blast+
  from 1 2 3 4 5 6 show ?thesis by blast
qed

text \<open>
  C2 (amended). An unknown tag does make \<open>create_form\<close> fail with the \<open>ValueError\<close>, but
  its message is a fixed text that lists the two valid tags and is not built from the
  offending tag. At the tag \<open>bogus\<close> the message does not contain the tag:
\<close>

theorem invalid_solubility_law_counterexample:
  "create_form 1 (example_mass_flux ''bogus'') (\<lambda>x. 300) (\<lambda>x. 1) =
     Inl (ValueError invalid_solubility_law) \<and>
   \<not> sublist ''bogus'' invalid_solubility_law"
  by (simp add: create_form_def c_interface_liquid_def example_mass_flux_def
      invalid_solubility_law_def sublist_Cons_right prefix_Cons)

text \<open>
  C2, as amended: for every mass-transfer condition whose \<open>solubility_law\<close> is neither
  \<open>sievert\<close> nor \<open>henry\<close>, building the form fails with the \<open>ValueError\<close> whose message is
  the fixed text \<open>invalid_solubility_law\<close>, the same for every tag, temperature and solute.
\<close>

theorem invalid_solubility_law_rejected:
  assumes "mf_solubility_law self \<noteq> ''sievert''" and "mf_solubility_law self \<noteq> ''henry''"
  shows "create_form k_B self T solute = Inl (ValueError invalid_solubility_law)"
  using assms by (simp add: create_form_def c_interface_liquid_invalid)

theorem invalid_solubility_law_rejected_witness:
  "create_form 1 (example_mass_flux ''bogus'') (\<lambda>x. 300) (\<lambda>x. 1) =
     Inl (ValueError invalid_solubility_law)"
  by (rule invalid_solubility_law_rejected) (simp_all add: example_mass_flux_def)

text \<open>
  C3 (amended). The claim speaks of every declared boundary-condition list.
  \<open>define_dirichlet_bcs_T\<close> raises nothing on an unrecognised kind: a thermal condition of
  kind \<open>bogus\<close> is skipped and the function returns normally.
\<close>

theorem unknown_kind_counterexample:
  "define_dirichlet_bcs_T
     (example_simulation
        [[''type'' \<mapsto> PStr ''bogus'', ''value'' \<mapsto> PFloat 300, ''surfaces'' \<mapsto> PInt 1]] []) =
   Inr ([], [])"
  by (simp add: define_dirichlet_bcs_T_def define_dirichlet_bc_T_def example_simulation_def
      getitem_def)

text \<open>
  C3, as amended: in \<open>apply_boundary_conditions\<close>, when the conditions before it are
  processed without error, a condition whose kind \<open>k\<close> is in none of the three lists of the
  table (a table that recognises the three kinds the assembler builds values for) makes the
  call fail with the \<open>NameError\<close> whose message ends with \<open>k\<close>; the result is the error alone,
  so no constraint is returned. In \<open>define_dirichlet_bcs_T\<close> a condition of any kind other
  than \<open>dc\<close> leaves the state unchanged.
\<close>

theorem unknown_kind_rejected:
  assumes "sim_boundary_conditions sim = pre @ BC # post"
    and "apply_boundary_conditions_loop bt sim ([], [], None) pre = Inr st"
    and "BC ''type'' = Some (PStr k)"
    and "k \<notin> set (bt_dc bt)" and "k \<notin> set (bt_neumann bt)" and "k \<notin> set (bt_robin bt)"
    and "set [''dc'', ''solubility'', ''dc_imp''] \<subseteq> set (bt_dc bt)"
    and "bc ''type'' = Some ty" and "ty \<noteq> PStr ''dc''"
  shows "apply_boundary_conditions bt sim =
           Inl (NameError (''Unknown boundary condition type : '' @ k)) \<and>
         define_dirichlet_bc_T sim st_T bc = Inr st_T"
proof -
  have "apply_boundary_condition bt sim st BC =
          Inl (NameError (''Unknown boundary condition type : '' @ k))"
    using assms(3-7) by (rule unknown_step)
  then have "apply_boundary_conditions_loop bt sim ([], [], None) (pre @ BC # post) =
          Inl (NameError (''Unknown boundary condition type : '' @ k))"
    using assms(2) by (simp add: loop_append)
  then have "apply_boundary_conditions bt sim =
          Inl (NameError (''Unknown boundary condition type : '' @ k))"
    using assms(1) by (simp add: apply_boundary_conditions_def)
  moreover have "define_dirichlet_bc_T sim st_T bc = Inr st_T"
    using assms(8,9) by (rule thermal_skip)
  ultimately show ?thesis by simp
qed

theorem unknown_kind_rejected_witness:
  "apply_boundary_conditions festim_bc_types
     (example_simulation
        [[''type'' \<mapsto> PStr ''dc'', ''value'' \<mapsto> PFloat 1, ''surfaces'' \<mapsto> PInt 1],
         [''type'' \<mapsto> PStr ''bogus'', ''surfaces'' \<mapsto> PInt 2]] []) =
     Inl (NameError ''Unknown boundary condition type : bogus'') \<and>
   define_dirichlet_bc_T
     (example_simulation
        [[''type'' \<mapsto> PStr ''dc'', ''value'' \<mapsto> PFloat 1, ''surfaces'' \<mapsto> PInt 1],
         [''type'' \<mapsto> PStr ''bogus'', ''surfaces'' \<mapsto> PInt 2]] []) ([], [])
     [''type'' \<mapsto> PStr ''bogus'', ''surfaces'' \<mapsto> PInt 2] = Inr ([], [])"
proof -
  let ?dc = "[''type'' \<mapsto> PStr ''dc'', ''value'' \<mapsto> PFloat 1, ''surfaces'' \<mapsto> PInt 1]"
  let ?bogus = "[''type'' \<mapsto> PStr ''bogus'', ''surfaces'' \<mapsto> PInt 2]"
  let ?sim = "example_simulation [?dc, ?bogus] []"
  have 1: "sim_boundary_conditions ?sim = [?dc] @ ?bogus # []"
    by (simp add: example_simulation_def)
  have 2: "apply_boundary_conditions_loop festim_bc_types ?sim ([], [], None) [?dc] =
      Inr ([DirichletBC Space_V (Expression (PFloat 1) 4) 0 (PInt 1)], [Expression (PFloat 1) 4],
           Some (Expression (PFloat 1) 4))"
    by (simp add: apply_boundary_condition_def make_value_BC_def example_simulation_def
        festim_bc_types_def getitem_def bc_component_def conservation_chemic_pot_def)
  have 3: "?bogus ''type'' = Some (PStr ''bogus'')" by simp
  have 4: "''bogus'' \<notin> set (bt_dc festim_bc_types)"
    "''bogus'' \<notin> set (bt_neumann festim_bc_types)"
    "''bogus'' \<notin> set (bt_robin festim_bc_types)"
    "set [''dc'', ''solubility'', ''dc_imp''] \<subseteq> set (bt_dc festim_bc_types)"
    by (simp_all add: festim_bc_types_def)
  have 5: "PStr ''bogus'' \<noteq> PStr ''dc''" by simp
  from unknown_kind_rejected [where BC = ?bogus and bc = ?bogus and sim = ?sim
      and st_T = "([], [])", OF 1 2 3 4 3 5]
  show ?thesis by simp
qed



text \<open>
  C5. At a point with \<open>T(x) > 0\<close> (and \<open>k_B\<close>, \<open>S_0\<close> nonzero, so that \<open>c/S(T)\<close> is defined), the
  tag \<open>sievert\<close> gives the interface concentration \<open>(c/S(T)) * S_liquid(T)\<close> and the tag
  \<open>henry\<close> gives \<open>(c/S(T))^2 * H_liquid(T)\<close>; the form \<open>create_form\<close> stores evaluates to
  \<open>-h_coeff * (c_interface - c_ext)\<close> with that concentration.
\<close>

theorem mass_transfer_interface_law:
  assumes "k_B \<noteq> 0" and "0 < T x" and "mf_S_0 self \<noteq> 0"
    and "sym_eval (mf_h_coeff self) t x = Inr h" and "sym_eval (mf_c_ext self) t x = Inr e"
  shows "(mf_solubility_law self = ''sievert'' \<longrightarrow>
            (\<exists>ci. c_interface_liquid k_B self T solute = Inr ci \<and>
                  ci x = Inr (solute x / spec_arrhenius k_B (mf_S_0 self) (mf_E_S self) (T x)
                              * spec_arrhenius k_B (mf_pre_exp_liquid self)
                                  (mf_activation_energy_liquid self) (T x))) \<and>
            (\<exists>self' f. create_form k_B self T solute = Inr self' \<and> mf_form self' = Some f \<and>
                  f t cell x =
                    Inr (- h * (solute x / spec_arrhenius k_B (mf_S_0 self) (mf_E_S self) (T x)
                                * spec_arrhenius k_B (mf_pre_exp_liquid self)
                                    (mf_activation_energy_liquid self) (T x) - e)))) \<and>
         (mf_solubility_law self = ''henry'' \<longrightarrow>
            (\<exists>ci. c_interface_liquid k_B self T solute = Inr ci \<and>
                  ci x = Inr ((solute x / spec_arrhenius k_B (mf_S_0 self) (mf_E_S self) (T x)) ^ 2
                              * spec_arrhenius k_B (mf_pre_exp_liquid self)
                                  (mf_activation_energy_liquid self) (T x))) \<and>
            (\<exists>self' f. create_form k_B self T solute = Inr self' \<and> mf_form self' = Some f \<and>
                  f t cell x =
                    Inr (- h * ((solute x / spec_arrhenius k_B (mf_S_0 self) (mf_E_S self) (T x)) ^ 2
                                * spec_arrhenius k_B (mf_pre_exp_liquid self)
                                    (mf_activation_energy_liquid self) (T x) - e))))"
proof -
  have Tx: "T x \<noteq> 0" using assms(2) by simp
  show ?thesis
  proof (intro conjI impI)
    assume law: "mf_solubility_law self = ''sievert''"
    from c_interface_liquid_sievert [where T = T and x = x and solute = solute, OF assms(1) Tx assms(3) law]
    obtain ci where ci: "c_interface_liquid k_B self T solute = Inr ci"
      "ci x = Inr (solute x / spec_arrhenius k_B (mf_S_0 self) (mf_E_S self) (T x)
                       * spec_arrhenius k_B (mf_pre_exp_liquid self)
                           (mf_activation_energy_liquid self) (T x))"
      by blast
    from ci show "\<exists>ci. c_interface_liquid k_B self T solute = Inr ci \<and>
                  ci x = Inr (solute x / spec_arrhenius k_B (mf_S_0 self) (mf_E_S self) (T x)
                              * spec_arrhenius k_B (mf_pre_exp_liquid self)
                                  (mf_activation_energy_liquid self) (T x))"
      by blast
    from create_form_value [where x = x and cell = cell, OF ci assms(4,5)]
    show "\<exists>self' f. create_form k_B self T solute = Inr self' \<and> mf_form self' = Some f \<and>
                  f t cell x =
                    Inr (- h * (solute x / spec_arrhenius k_B (mf_S_0 self) (mf_E_S self) (T x)
                                * spec_arrhenius k_B (mf_pre_exp_liquid self)
                                    (mf_activation_energy_liquid self) (T x) - e))"
      by blast
  next
    assume law: "mf_solubility_law self = ''henry''"
    from c_interface_liquid_henry [where T = T and x = x and solute = solute, OF assms(1) Tx assms(3) law]
    obtain ci where ci: "c_interface_liquid k_B self T solute = Inr ci"
      "ci x = Inr ((solute x / spec_arrhenius k_B (mf_S_0 self) (mf_E_S self) (T x)) ^ 2
                       * spec_arrhenius k_B (mf_pre_exp_liquid self)
                           (mf_activation_energy_liquid self) (T x))"
      by blast
    from ci show "\<exists>ci. c_interface_liquid k_B self T solute = Inr ci \<and>
                  ci x = Inr ((solute x / spec_arrhenius k_B (mf_S_0 self) (mf_E_S self) (T x)) ^ 2
                              * spec_arrhenius k_B (mf_pre_exp_liquid self)
                                  (mf_activation_energy_liquid self) (T x))"
      by blast
    from create_form_value [where x = x and cell = cell, OF ci assms(4,5)]
    show "\<exists>self' f. create_form k_B self T solute = Inr self' \<and> mf_form self' = Some f \<and>
                  f t cell x =
                    Inr (- h * ((solute x / spec_arrhenius k_B (mf_S_0 self) (mf_E_S self) (T x)) ^ 2
                                * spec_arrhenius k_B (mf_pre_exp_liquid self)
                                    (mf_activation_energy_liquid self) (T x) - e))"
      by blast
  qed
qed

theorem mass_transfer_interface_law_witness:
  "(\<exists>ci. c_interface_liquid 1 (example_mass_flux ''sievert'') (\<lambda>x. 1) (\<lambda>x. 4) = Inr ci \<and>
         ci [] = Inr 6) \<and>
   (\<exists>self' f. create_form 1 (example_mass_flux ''sievert'') (\<lambda>x. 1) (\<lambda>x. 4) = Inr self' \<and>
         mf_form self' = Some f \<and> f 0 0 [] = Inr (- 10)) \<and>
   (\<exists>ci. c_interface_liquid 1 (example_mass_flux ''henry'') (\<lambda>x. 1) (\<lambda>x. 4) = Inr ci \<and>
         ci [] = Inr 12) \<and>
   (\<exists>self' f. create_form 1 (example_mass_flux ''henry'') (\<lambda>x. 1) (\<lambda>x. 4) = Inr self' \<and>
         mf_form self' = Some f \<and> f 0 0 [] = Inr (- 22))"
proof -
  have s: "mf_solubility_law (example_mass_flux ''sievert'') = ''sievert''"
    and h: "mf_solubility_law (example_mass_flux ''henry'') = ''henry''"
    by (simp_all add: example_mass_flux_def)
  have a: "(1::real) \<noteq> 0" "0 < (\<lambda>x::point. 1::real) []" by simp_all
  have b: "mf_S_0 (example_mass_flux law) \<noteq> 0"
    "sym_eval (mf_h_coeff (example_mass_flux law)) 0 [] = Inr 2"
    "sym_eval (mf_c_ext (example_mass_flux law)) 0 [] = Inr 1" for law
    by (simp_all add: example_mass_flux_def)
  from mass_transfer_interface_law [where T = "\<lambda>x. 1" and x = "[]" and self = "example_mass_flux ''sievert''"
      and solute = "\<lambda>x. 4" and cell = 0, OF a b] s
  have 1: "(\<exists>ci. c_interface_liquid 1 (example_mass_flux ''sievert'') (\<lambda>x. 1) (\<lambda>x. 4) = Inr ci \<and>
         ci [] = Inr 6) \<and>
   (\<exists>self' f. create_form 1 (example_mass_flux ''sievert'') (\<lambda>x. 1) (\<lambda>x. 4) = Inr self' \<and>
         mf_form self' = Some f \<and> f 0 0 [] = Inr (- 10))"
    by (simp add: spec_arrhenius_def example_mass_flux_def)
  from mass_transfer_interface_law [where T = "\<lambda>x. 1" and x = "[]" and self = "example_mass_flux ''henry''"
      and solute = "\<lambda>x. 4" and cell = 0, OF a b] h
  have 2: "(\<exists>ci. c_interface_liquid 1 (example_mass_flux ''henry'') (\<lambda>x. 1) (\<lambda>x. 4) = Inr ci \<and>
         ci [] = Inr 12) \<and>
   (\<exists>self' f. create_form 1 (example_mass_flux ''henry'') (\<lambda>x. 1) (\<lambda>x. 4) = Inr self' \<and>
         mf_form self' = Some f \<and> f 0 0 [] = Inr (- 22))"
    by (simp add: spec_arrhenius_def example_mass_flux_def)
  from 1 2 show ?thesis by blast
qed

text \<open>
  C6. If every declared material carries the same \<open>S_0\<close> and \<open>E_S\<close> (numbers, \<open>S_0\<close> nonzero so
  that the quotient is defined), the cell's subdomain id is the id of a declared material,
  and \<open>T(x) > 0\<close>, then the transform of \<open>c\<close> evaluates to \<open>c(x) / S(T(x))\<close>, and multiplied
  by \<open>S(T(x))\<close> it gives back \<open>c(x)\<close>.
\<close>

theorem theta_round_trip:
  assumes "k_B \<noteq> 0" and "0 < T x"
    and "\<forall>m \<in> set materials. m ''S_0'' = Some S_0 \<and> m ''E_S'' = Some E_S"
    and "as_float S_0 = Inr s0" and "s0 \<noteq> 0" and "as_float E_S = Inr es"
    and "\<exists>m \<in> set materials. m ''id'' = Some (PInt (vm cell))"
    and "eval_expr k_B t cell bci x = Inr c"
  shows "\<exists>v. eval_expr k_B t cell (BoundaryConditionTheta bci mesh materials vm T) x = Inr v \<and>
             v = c / spec_arrhenius k_B s0 es (T x) \<and>
             v * spec_arrhenius k_B s0 es (T x) = c"
proof -
  have Tx: "T x \<noteq> 0" using assms(2) by simp
  from find_material_from_id_found [OF assms(7)]
  obtain m where m: "find_material_from_id materials (vm cell) = Inr m" by blast
  then have "m \<in> set materials" by (rule find_material_from_id_member)
  with assms(3) have k: "m ''S_0'' = Some S_0" "m ''E_S'' = Some E_S" by auto
  have "BoundaryConditionTheta_eval_cell k_B (\<lambda>y. eval_expr k_B t cell bci y) materials vm T cell x =
          Inr (c / spec_arrhenius k_B s0 es (T x))"
    using assms(1) Tx m k assms(4,5,6,8) by (rule theta_eval_cell_value)
  moreover have "spec_arrhenius k_B s0 es (T x) \<noteq> 0"
    using assms(5) by (rule spec_arrhenius_nonzero)
  ultimately show ?thesis by simp
qed

theorem theta_round_trip_witness:
  "\<exists>v. eval_expr 1 0 0
          (BoundaryConditionTheta (Expression (PFloat 6) 4) 0 [example_material] (\<lambda>cell. 1) (\<lambda>x. 1))
          [] = Inr v \<and>
        v = 3 \<and> v * spec_arrhenius 1 2 0 1 = 6"
proof -
  have a: "(1::real) \<noteq> 0" "0 < (\<lambda>x::point. 1::real) []" by simp_all
  have b: "\<forall>m \<in> set [example_material]. m ''S_0'' = Some (PFloat 2) \<and> m ''E_S'' = Some (PFloat 0)"
    by (simp add: example_material_def)
  have c: "as_float (PFloat 2) = Inr 2" "(2::real) \<noteq> 0" "as_float (PFloat 0) = Inr 0" by simp_all
  have d: "\<exists>m \<in> set [example_material]. m ''id'' = Some (PInt ((\<lambda>cell::nat. 1::int) 0))"
    by (simp add: example_material_def)
  have e: "eval_expr 1 0 0 (Expression (PFloat 6) 4) [] = Inr 6" by simp
  from theta_round_trip [where T = "\<lambda>x. 1" and x = "[]" and vm = "\<lambda>cell. 1" and cell = 0
      and mesh = 0, OF a b c d e]
  show ?thesis by (simp add: spec_arrhenius_def)
qed

text \<open>
  C7. With \<open>K_0\<close> set and everything else fixed (\<open>phi(x) > 0\<close>, \<open>T(x) > 0\<close>, the arithmetic
  defined), a smaller positive \<open>K_0\<close> gives a strictly larger surface concentration.
\<close>

theorem recomb_monotone_in_K_0:
  assumes "k_B \<noteq> 0" and "0 < T x"
    and "as_float D_0 = Inr d0" and "d0 \<noteq> 0" and "as_float E_D = Inr ed"
    and "as_float E_K = Inr ek"
    and "eval_expr k_B t cell phi x = Inr p" and "0 < p"
    and "eval_expr k_B t cell R_p x = Inr r"
    and "as_float K1 = Inr k1" and "as_float K2 = Inr k2"
    and "0 < k1" and "k1 < k2"
  shows "\<exists>v1 v2.
           eval_expr k_B t cell (BoundaryConditionRecomb phi R_p K1 E_K D_0 E_D T) x = Inr v1 \<and>
           eval_expr k_B t cell (BoundaryConditionRecomb phi R_p K2 E_K D_0 E_D T) x = Inr v2 \<and>
           v2 < v1"
proof -
  let ?D = "spec_arrhenius k_B d0 ed (T x)"
  have Tx: "T x \<noteq> 0" using assms(2) by simp
  have e: "0 < exp (- ek / (k_B * T x))" by simp
  have k2: "0 < k2" using assms(12,13) by simp
  have K1: "0 < spec_arrhenius k_B k1 ek (T x)" using assms(12) by (rule spec_arrhenius_pos)
  have K2: "0 < spec_arrhenius k_B k2 ek (T x)" using k2 by (rule spec_arrhenius_pos)
  have lt: "spec_arrhenius k_B k1 ek (T x) < spec_arrhenius k_B k2 ek (T x)"
    using assms(13) e by (simp add: spec_arrhenius_def)
  have q: "p / spec_arrhenius k_B k2 ek (T x) < p / spec_arrhenius k_B k1 ek (T x)"
    using lt K1 K2 assms(8) by (simp add: frac_less2)
  have v1: "eval_expr k_B t cell (BoundaryConditionRecomb phi R_p K1 E_K D_0 E_D T) x =
              Inr (p * r / ?D + sqrt (p / spec_arrhenius k_B k1 ek (T x)))"
    unfolding recomb_eval_expr
    using assms K1 Tx by (intro recomb_eval_finite) simp_all
  have v2: "eval_expr k_B t cell (BoundaryConditionRecomb phi R_p K2 E_K D_0 E_D T) x =
              Inr (p * r / ?D + sqrt (p / spec_arrhenius k_B k2 ek (T x)))"
    unfolding recomb_eval_expr
    using assms K2 k2 Tx by (intro recomb_eval_finite) simp_all
  from q have "sqrt (p / spec_arrhenius k_B k2 ek (T x)) < sqrt (p / spec_arrhenius k_B k1 ek (T x))"
    by simp
  with v1 v2 show ?thesis by simp
qed

theorem recomb_monotone_in_K_0_witness:
  "\<exists>v1 v2.
     eval_expr 1 0 0 (BoundaryConditionRecomb (Expression (PFloat 4) 1) (Expression (PFloat 3) 1)
        (PFloat 1) (PFloat 0) (PFloat 2) (PFloat 0) (\<lambda>x. 1)) [] = Inr v1 \<and>
     eval_expr 1 0 0 (BoundaryConditionRecomb (Expression (PFloat 4) 1) (Expression (PFloat 3) 1)
        (PFloat 4) (PFloat 0) (PFloat 2) (PFloat 0) (\<lambda>x. 1)) [] = Inr v2 \<and>
     v2 < v1"
  by (rule recomb_monotone_in_K_0 [where ?d0.0 = 2 and ed = 0 and ek = 0 and p = 4 and r = 3
        and ?k1.0 = 1 and ?k2.0 = 4])
    simp_all

text \<open>
  C8. When the transform applies to a Dirichlet-class condition (component 0, mode
  enabled), the iteration appends the original value \<open>v\<close> and then its wrapper to the
  expression list and imposes the wrapper on every surface of the condition; both
  expressions and these constraints are in the lists the assembler returns.
\<close>

theorem original_value_stays_registered:
  assumes "sim_boundary_conditions sim = pre @ BC # post"
    and "apply_boundary_conditions_loop bt sim ([], [], None) pre = Inr (bcs, exprs, vb)"
    and "BC ''type'' = Some ty" and "py_in ty (bt_dc bt)"
    and "make_value_BC sim BC ty (exprs, vb) = Inr (exprs1, Some v)"
    and "BC ''surfaces'' = Some s"
    and "py_eq_zero (bc_component BC)" and "conservation_chemic_pot (sim_materials sim)"
    and "apply_boundary_conditions bt sim = Inr (bcs_out, exprs_out)"
  shows "apply_boundary_condition bt sim (bcs, exprs, vb) BC =
           Inr (bcs @ map (DirichletBC (bc_funspace sim BC) (theta_of sim v)
                            (sim_surface_markers sim)) (as_surface_list s),
                exprs1 @ [v, theta_of sim v], Some (theta_of sim v)) \<and>
         prefix (exprs1 @ [v, theta_of sim v]) exprs_out \<and>
         prefix (bcs @ map (DirichletBC (bc_funspace sim BC) (theta_of sim v)
                             (sim_surface_markers sim)) (as_surface_list s)) bcs_out"
proof -
  let ?st = "(bcs @ map (DirichletBC (bc_funspace sim BC) (theta_of sim v)
                            (sim_surface_markers sim)) (as_surface_list s),
              exprs1 @ [v, theta_of sim v], Some (theta_of sim v))"
  have th: "theta_applies sim BC"
    using assms(7,8) by (simp add: theta_applies_def conservation_chemic_pot_iff)
  have step: "apply_boundary_condition bt sim (bcs, exprs, vb) BC = Inr ?st"
    using essential_step [OF assms(3,4,5,6), of bcs] th by simp
  from assms(9,1) obtain vb_out where
    "apply_boundary_conditions_loop bt sim ([], [], None) (pre @ BC # post) =
       Inr (bcs_out, exprs_out, vb_out)"
    by (auto simp: apply_boundary_conditions_def split: sum.splits)
  then have "apply_boundary_conditions_loop bt sim ?st post = Inr (bcs_out, exprs_out, vb_out)"
    using assms(2) step by (simp add: loop_append)
  from loop_prefix [OF this] step show ?thesis by simp
qed

theorem original_value_stays_registered_witness:
  "apply_boundary_conditions festim_bc_types
     (example_simulation
        [[''type'' \<mapsto> PStr ''dc'', ''value'' \<mapsto> PFloat 1, ''surfaces'' \<mapsto> PInt 1]]
        [example_material]) =
     Inr ([DirichletBC Space_V
             (BoundaryConditionTheta (Expression (PFloat 1) 4) 0 [example_material] (\<lambda>cell. 1)
                (\<lambda>x. 1)) 0 (PInt 1)],
          [Expression (PFloat 1) 4,
           BoundaryConditionTheta (Expression (PFloat 1) 4) 0 [example_material] (\<lambda>cell. 1)
             (\<lambda>x. 1)]) \<and>
   prefix [Expression (PFloat 1) 4,
           BoundaryConditionTheta (Expression (PFloat 1) 4) 0 [example_material] (\<lambda>cell. 1)
             (\<lambda>x. 1)]
          [Expression (PFloat 1) 4,
           BoundaryConditionTheta (Expression (PFloat 1) 4) 0 [example_material] (\<lambda>cell. 1)
             (\<lambda>x. 1)]"
proof -
  let ?BC = "[''type'' \<mapsto> PStr ''dc'', ''value'' \<mapsto> PFloat 1, ''surfaces'' \<mapsto> PInt 1]"
  let ?sim = "example_simulation [?BC] [example_material]"
  let ?v = "Expression (PFloat 1) 4"
  let ?w = "BoundaryConditionTheta ?v 0 [example_material] (\<lambda>cell. 1) (\<lambda>x. 1)"
  have 1: "sim_boundary_conditions ?sim = [] @ ?BC # []" by (simp add: example_simulation_def)
  have 2: "apply_boundary_conditions_loop festim_bc_types ?sim ([], [], None) [] =
             Inr ([], [], None)" by simp
  have 3: "?BC ''type'' = Some (PStr ''dc'')" by simp
  have 4: "py_in (PStr ''dc'') (bt_dc festim_bc_types)" by (simp add: festim_bc_types_def)
  have 5: "make_value_BC ?sim ?BC (PStr ''dc'') ([], None) = Inr ([], Some ?v)"
    by (simp add: make_value_BC_def getitem_def)
  have 6: "?BC ''surfaces'' = Some (PInt 1)" by simp
  have 7: "py_eq_zero (bc_component ?BC)" by (simp add: bc_component_def)
  have 8: "conservation_chemic_pot (sim_materials ?sim)"
    by (simp add: conservation_chemic_pot_def example_simulation_def example_material_def)
  have 9: "apply_boundary_conditions festim_bc_types ?sim =
             Inr ([DirichletBC Space_V ?w 0 (PInt 1)], [?v, ?w])"
    by (simp add: apply_boundary_conditions_def apply_boundary_condition_def make_value_BC_def
        example_simulation_def example_material_def festim_bc_types_def getitem_def
        bc_component_def conservation_chemic_pot_def)
  have t: "theta_of ?sim ?v = ?w" by (simp add: theta_of_def example_simulation_def)
  from original_value_stays_registered [where BC = ?BC and sim = ?sim, OF 1 2 3 4 5 6 7 8 9]
  have "prefix ([] @ [?v, theta_of ?sim ?v]) [?v, ?w]" by blast
  with t have "prefix [?v, ?w] [?v, ?w]" by simp
  with 9 show ?thesis by blast
qed




text \<open>
  C10. A \<open>dc_imp\<close> condition that has exactly one of the keys \<open>K_0\<close> and \<open>E_K\<close> raises
  nothing: the iteration of the assembler registers the two flux expressions and the
  recombination value \<open>v\<close> built with \<open>K_0 = E_K = None\<close>, and imposes \<open>v\<close> (or its theta
  wrapper, when the transform applies) on every surface of the condition; with the
  condition last in the list this is what \<open>apply_boundary_conditions\<close> returns; and \<open>v\<close>
  evaluates to \<open>phi * R_p / D(T)\<close> with no square root term.
\<close>

theorem partial_recombination_keys_default:
  assumes "sim_boundary_conditions sim = pre @ [BC]"
    and "apply_boundary_conditions_loop bt sim ([], [], None) pre = Inr (bcs, exprs, vb)"
    and "BC ''type'' = Some (PStr ''dc_imp'')" and "''dc_imp'' \<in> set (bt_dc bt)"
    and "BC ''implanted_flux'' = Some f" and "BC ''implantation_depth'' = Some d"
    and "BC ''D_0'' = Some D_0" and "BC ''E_D'' = Some E_D" and "BC ''surfaces'' = Some s"
    and "(BC ''K_0'' = None) \<noteq> (BC ''E_K'' = None)"
    and "k_B \<noteq> 0" and "sim_T sim x \<noteq> 0"
    and "as_float D_0 = Inr d0" and "d0 \<noteq> 0" and "as_float E_D = Inr ed"
    and "sym_eval f t x = Inr p" and "sym_eval d t x = Inr r"
    and "v = BoundaryConditionRecomb (Expression f 1) (Expression d 1) PNone PNone D_0 E_D
               (sim_T sim)"
  shows "apply_boundary_condition bt sim (bcs, exprs, vb) BC =
           (if theta_applies sim BC then
              Inr (bcs @ map (DirichletBC (bc_funspace sim BC) (theta_of sim v)
                               (sim_surface_markers sim)) (as_surface_list s),
                   exprs @ [Expression f 1, Expression d 1, v, theta_of sim v],
                   Some (theta_of sim v))
            else
              Inr (bcs @ map (DirichletBC (bc_funspace sim BC) v (sim_surface_markers sim))
                           (as_surface_list s),
                   exprs @ [Expression f 1, Expression d 1, v], Some v)) \<and>
         apply_boundary_conditions bt sim =
           (if theta_applies sim BC then
              Inr (bcs @ map (DirichletBC (bc_funspace sim BC) (theta_of sim v)
                               (sim_surface_markers sim)) (as_surface_list s),
                   exprs @ [Expression f 1, Expression d 1, v, theta_of sim v])
            else
              Inr (bcs @ map (DirichletBC (bc_funspace sim BC) v (sim_surface_markers sim))
                           (as_surface_list s),
                   exprs @ [Expression f 1, Expression d 1, v])) \<and>
         eval_expr k_B t cell v x = Inr (p * r / spec_arrhenius k_B d0 ed (sim_T sim x))"
proof -
  have k: "BC ''K_0'' = None \<or> BC ''E_K'' = None" using assms(10) by auto
  have mv: "make_value_BC sim BC (PStr ''dc_imp'') (exprs, vb) =
           Inr (exprs @ [Expression f 1, Expression d 1], Some v)"
    unfolding assms(18) using assms(5-8) k by (rule make_value_BC_dc_imp)
  have "py_in (PStr ''dc_imp'') (bt_dc bt)" using assms(4) by simp
  from essential_step [OF assms(3) this mv assms(9), of bcs]
  have step: "apply_boundary_condition bt sim (bcs, exprs, vb) BC =
           (if theta_applies sim BC then
              Inr (bcs @ map (DirichletBC (bc_funspace sim BC) (theta_of sim v)
                               (sim_surface_markers sim)) (as_surface_list s),
                   exprs @ [Expression f 1, Expression d 1, v, theta_of sim v],
                   Some (theta_of sim v))
            else
              Inr (bcs @ map (DirichletBC (bc_funspace sim BC) v (sim_surface_markers sim))
                           (as_surface_list s),
                   exprs @ [Expression f 1, Expression d 1, v], Some v))"
    by simp
  have "apply_boundary_conditions_loop bt sim ([], [], None) (pre @ [BC]) =
          apply_boundary_condition bt sim (bcs, exprs, vb) BC"
    using assms(2) by (simp add: loop_append split: sum.splits)
  then have whole: "apply_boundary_conditions bt sim =
           (if theta_applies sim BC then
              Inr (bcs @ map (DirichletBC (bc_funspace sim BC) (theta_of sim v)
                               (sim_surface_markers sim)) (as_surface_list s),
                   exprs @ [Expression f 1, Expression d 1, v, theta_of sim v])
            else
              Inr (bcs @ map (DirichletBC (bc_funspace sim BC) v (sim_surface_markers sim))
                           (as_surface_list s),
                   exprs @ [Expression f 1, Expression d 1, v]))"
    using assms(1) step by (simp add: apply_boundary_conditions_def)
  have ev: "eval_expr k_B t cell v x = Inr (p * r / spec_arrhenius k_B d0 ed (sim_T sim x))"
    unfolding assms(18) recomb_eval_expr
    using assms(11-17) by (intro recomb_eval_instantaneous) simp_all
  from step whole ev show ?thesis by blast
qed

theorem partial_recombination_keys_default_witness:
  "apply_boundary_conditions festim_bc_types (example_simulation [example_dc_imp] []) =
     Inr ([DirichletBC Space_V
             (BoundaryConditionRecomb (Expression (PFloat 4) 1) (Expression (PFloat 3) 1)
                PNone PNone (PFloat 2) (PFloat 0) (\<lambda>x. 1)) 0 (PInt 1)],
          [Expression (PFloat 4) 1, Expression (PFloat 3) 1,
           BoundaryConditionRecomb (Expression (PFloat 4) 1) (Expression (PFloat 3) 1)
             PNone PNone (PFloat 2) (PFloat 0) (\<lambda>x. 1)]) \<and>
   eval_expr 1 0 0
     (BoundaryConditionRecomb (Expression (PFloat 4) 1) (Expression (PFloat 3) 1)
        PNone PNone (PFloat 2) (PFloat 0) (\<lambda>x. 1)) [] = Inr 6"
proof -
  let ?sim = "example_simulation [example_dc_imp] []"
  let ?v = "BoundaryConditionRecomb (Expression (PFloat 4) 1) (Expression (PFloat 3) 1)
              PNone PNone (PFloat 2) (PFloat 0) (\<lambda>x. 1)"
  have 1: "sim_boundary_conditions ?sim = [] @ [example_dc_imp]"
    by (simp add: example_simulation_def)
  have 2: "apply_boundary_conditions_loop festim_bc_types ?sim ([], [], None) [] =
             Inr ([], [], None)" by simp
  have 4: "''dc_imp'' \<in> set (bt_dc festim_bc_types)" by (simp add: festim_bc_types_def)
  have 9: "(1::real) \<noteq> 0" "sim_T ?sim [] \<noteq> 0" "as_float (PFloat 2) = Inr 2" "(2::real) \<noteq> 0"
    "as_float (PFloat 0) = Inr 0" "sym_eval (PFloat 4) 0 [] = Inr 4"
    "sym_eval (PFloat 3) 0 [] = Inr 3"
    by (simp_all add: example_simulation_def)
  have v: "?v = BoundaryConditionRecomb (Expression (PFloat 4) 1) (Expression (PFloat 3) 1)
              PNone PNone (PFloat 2) (PFloat 0) (sim_T ?sim)"
    by (simp add: example_simulation_def)
  have th: "\<not> theta_applies ?sim example_dc_imp"
    by (simp add: theta_applies_def example_simulation_def)
  have fs: "bc_funspace ?sim example_dc_imp = Space_V" "sim_surface_markers ?sim = 0"
    "sim_T ?sim [] = 1"
    by (simp_all add: bc_funspace_def example_simulation_def)
  note t = partial_recombination_keys_default [where BC = example_dc_imp and sim = ?sim
      and x = "[]" and cell = 0 and v = ?v,
      OF 1 2 example_dc_imp_keys(1) 4 example_dc_imp_keys(2-7) 9 v]
  from t [THEN conjunct2, THEN conjunct1, unfolded if_not_P [OF th]]
  have a: "apply_boundary_conditions festim_bc_types ?sim =
     Inr ([DirichletBC Space_V ?v 0 (PInt 1)],
          [Expression (PFloat 4) 1, Expression (PFloat 3) 1, ?v])"
    by (simp add: fs)
  from t [THEN conjunct2, THEN conjunct2]
  have b: "eval_expr 1 0 0 ?v [] = Inr 6" by (simp add: fs spec_arrhenius_def)
  from a b show ?thesis by blast
qed

end
